theory Spec2Isabelle
  imports Complex_Main
begin

section \<open>Python values, errors and the float primitives\<close>

text \<open>
  The program is \<^verbatim>\<open>weather.py\<close>: nine small functions over lists of daily weather
  readings. Every raise of the source is a value here: a function that can raise returns
  \<open>error + 'a\<close>, with \<open>Inl\<close> the exception.
\<close>

datatype error = ValueError | IndexError | ZeroDivisionError | OverflowError | StopIteration

text \<open>
  Python's \<^verbatim>\<open>float\<close> is binary64. The functions of the program take its primitives as a
  record \<open>fl\<close>, so that what is proved of them holds whatever the primitives compute;
  the section on binary64 below defines \<open>binary64_ops\<close>, the primitives as CPython 3.11
  computes them. Floats are compared by value: \<open>fval fl x\<close> is the real number the float
  stands for, and \<^verbatim>\<open>x < y\<close> and \<^verbatim>\<open>x == y\<close> compare these values (so \<^verbatim>\<open>-0.0 == 0.0\<close>). NaN,
  which compares unlike a number, is outside the model.
\<close>

record 'f float_ops =
  fval :: "'f \<Rightarrow> real"
  float_of_int :: "int \<Rightarrow> 'f"
  float_of_str :: "string \<Rightarrow> 'f option"
  fsub :: "'f \<Rightarrow> 'f \<Rightarrow> 'f"
  fmul :: "'f \<Rightarrow> 'f \<Rightarrow> 'f"
  fdiv :: "'f \<Rightarrow> 'f \<Rightarrow> 'f"
  fsum :: "'f list \<Rightarrow> 'f"
  fround :: "'f \<Rightarrow> nat \<Rightarrow> 'f"
  fstr :: "'f \<Rightarrow> string"

text \<open>
  The source passes every item through \<^verbatim>\<open>float(x)\<close> "to handle string inputs": an
  item is an \<^verbatim>\<open>int\<close>, a \<^verbatim>\<open>float\<close> or a \<^verbatim>\<open>str\<close>. \<^verbatim>\<open>float\<close> is the identity on a float. On an
  int it raises OverflowError when the int rounds to no finite binary64, which is from
  \<open>2\<^sup>1\<^sup>0\<^sup>2\<^sup>4 - 2\<^sup>9\<^sup>7\<^sup>0\<close> on in magnitude, and is the conversion \<open>float_of_int\<close> below that.
  On a string it parses or raises ValueError (\<open>float_of_str fl s = None\<close>).
\<close>

datatype 'f pynum = PyInt int | PyFloat 'f | PyStr string

definition float_int_limit :: int where
  "float_int_limit = 2 ^ 1024 - 2 ^ 970"

fun py_float :: "'f float_ops \<Rightarrow> 'f pynum \<Rightarrow> error + 'f" where
  "py_float fl (PyInt n) =
     (if float_int_limit \<le> \<bar>n\<bar> then Inl OverflowError else Inr (float_of_int fl n))"
| "py_float fl (PyFloat x) = Inr x"
| "py_float fl (PyStr s) =
     (case float_of_str fl s of None \<Rightarrow> Inl ValueError | Some x \<Rightarrow> Inr x)"

text \<open>
  A list comprehension \<^verbatim>\<open>[f(x) for x in xs]\<close> whose body can raise: the first failure
  ends it.
\<close>

fun map_result :: "('a \<Rightarrow> error + 'b) \<Rightarrow> 'a list \<Rightarrow> error + 'b list" where
  "map_result f [] = Inr []"
| "map_result f (x # xs) =
     (case f x of
        Inl e \<Rightarrow> Inl e
      | Inr y \<Rightarrow> (case map_result f xs of Inl e \<Rightarrow> Inl e | Inr ys \<Rightarrow> Inr (y # ys)))"

text \<open>\<^verbatim>\<open>xs[i]\<close> for a position \<open>i\<close> that is not negative: IndexError out of range.\<close>

definition py_getitem :: "'a list \<Rightarrow> nat \<Rightarrow> error + 'a" where
  "py_getitem xs i = (if i < length xs then Inr (xs ! i) else Inl IndexError)"

definition py_lt :: "'f float_ops \<Rightarrow> 'f \<Rightarrow> 'f \<Rightarrow> bool" where
  "py_lt fl x y = (fval fl x < fval fl y)"

definition py_eq :: "'f float_ops \<Rightarrow> 'f \<Rightarrow> 'f \<Rightarrow> bool" where
  "py_eq fl x y = (fval fl x = fval fl y)"

text \<open>
  The builtin \<^verbatim>\<open>min\<close> keeps the first item and replaces it by a later one only when
  that one is strictly smaller; \<^verbatim>\<open>max\<close> only when it is strictly greater. Both raise
  ValueError on an empty list.
\<close>

definition py_min :: "'f float_ops \<Rightarrow> 'f list \<Rightarrow> error + 'f" where
  "py_min fl xs =
     (case xs of
        [] \<Rightarrow> Inl ValueError
      | x # rest \<Rightarrow> Inr (foldl (\<lambda>m item. if py_lt fl item m then item else m) x rest))"

definition py_max :: "'f float_ops \<Rightarrow> 'f list \<Rightarrow> error + 'f" where
  "py_max fl xs =
     (case xs of
        [] \<Rightarrow> Inl ValueError
      | x # rest \<Rightarrow> Inr (foldl (\<lambda>m item. if py_lt fl m item then item else m) x rest))"

text \<open>\<^verbatim>\<open>xs.index(v)\<close>: the first position whose item equals \<open>v\<close>, ValueError if none.\<close>

fun py_index :: "'f float_ops \<Rightarrow> 'f list \<Rightarrow> 'f \<Rightarrow> error + nat" where
  "py_index fl [] v = Inl ValueError"
| "py_index fl (x # xs) v =
     (if py_eq fl x v then Inr 0
      else (case py_index fl xs v of Inl e \<Rightarrow> Inl e | Inr i \<Rightarrow> Inr (Suc i)))"

section \<open>Statistics\<close>

text \<open>
  \<^verbatim>\<open>find_min\<close> and \<^verbatim>\<open>find_max\<close> return the empty tuple (\<open>None\<close>) on an empty list and
  the pair of the extremum and its last position otherwise. The position is
  \<^verbatim>\<open>len(float_data) - 1 - float_data[::-1].index(min_value)\<close>.
\<close>

definition find_min :: "'f float_ops \<Rightarrow> 'f pynum list \<Rightarrow> error + ('f \<times> nat) option" where
  "find_min fl weather_data =
     (if weather_data = [] then Inr None
      else
        (case map_result (py_float fl) weather_data of
           Inl e \<Rightarrow> Inl e
         | Inr float_data \<Rightarrow>
             (case py_min fl float_data of
                Inl e \<Rightarrow> Inl e
              | Inr min_value \<Rightarrow>
                  (case py_index fl (rev float_data) min_value of
                     Inl e \<Rightarrow> Inl e
                   | Inr k \<Rightarrow> Inr (Some (min_value, length float_data - 1 - k))))))"

definition find_max :: "'f float_ops \<Rightarrow> 'f pynum list \<Rightarrow> error + ('f \<times> nat) option" where
  "find_max fl weather_data =
     (if weather_data = [] then Inr None
      else
        (case map_result (py_float fl) weather_data of
           Inl e \<Rightarrow> Inl e
         | Inr float_data \<Rightarrow>
             (case py_max fl float_data of
                Inl e \<Rightarrow> Inl e
              | Inr max_value \<Rightarrow>
                  (case py_index fl (rev float_data) max_value of
                     Inl e \<Rightarrow> Inl e
                   | Inr k \<Rightarrow> Inr (Some (max_value, length float_data - 1 - k))))))"



text \<open>
  \<^verbatim>\<open>calculate_mean\<close> is \<^verbatim>\<open>sum(float_data) / len(float_data)\<close>: the division raises
  ZeroDivisionError when the length is 0. The length of a list is at most
  \<^verbatim>\<open>sys.maxsize\<close>, far below \<open>float_int_limit\<close>, so its conversion for the division never
  overflows.
\<close>

definition calculate_mean :: "'f float_ops \<Rightarrow> 'f pynum list \<Rightarrow> error + 'f" where
  "calculate_mean fl weather_data =
     (case map_result (py_float fl) weather_data of
        Inl e \<Rightarrow> Inl e
      | Inr float_data \<Rightarrow>
          (if length float_data = 0 then Inl ZeroDivisionError
           else Inr (fdiv fl (fsum fl float_data) (float_of_int fl (int (length float_data))))))"

section \<open>Strings\<close>

text \<open>
  A Python string is a list of code points; the model takes those below 256, which
  \<open>char\<close> holds. The degree sign U+00B0 is \<open>CHR 0xB0\<close>.
\<close>

definition newline :: string where
  "newline = [CHR 0x0A]"

definition DEGREE_SYMBOL :: string where
  "DEGREE_SYMBOL = [CHR 0xB0, CHR ''C'']"

definition is_digit :: "char \<Rightarrow> bool" where
  "is_digit c = (48 \<le> (of_char c :: nat) \<and> (of_char c :: nat) \<le> 57)"

definition digit_val :: "char \<Rightarrow> nat" where
  "digit_val c = of_char c - 48"

definition digit_char :: "nat \<Rightarrow> char" where
  "digit_char n = ''0123456789'' ! n"

text \<open>\<^verbatim>\<open>str(n)\<close> for an int that is not negative, as the f-string prints the day count.\<close>

fun str_of_nat :: "nat \<Rightarrow> string" where
  "str_of_nat n =
     (if n < 10 then [digit_char n] else str_of_nat (n div 10) @ [digit_char (n mod 10)])"

declare str_of_nat.simps [simp del]

definition format_temperature :: "'f float_ops \<Rightarrow> 'f \<Rightarrow> string" where
  "format_temperature fl temp = fstr fl temp @ DEGREE_SYMBOL"

section \<open>Dates\<close>

text \<open>
  \<^verbatim>\<open>convert_date\<close> is \<^verbatim>\<open>datetime.fromisoformat(iso_string).strftime("%A %d %B %Y")\<close>.
  Both calls are the standard library's. \<open>fromisoformat\<close> below follows the parser of
  CPython 3.11 (\<^verbatim>\<open>_datetimemodule.c\<close>), which reads more than the library documents. It
  works on the UTF-8 bytes of the string, reads a byte past the end as the terminating
  NUL, and raises nothing but ValueError. Only the calendar fields are kept, since the
  format string prints no others, but the time of day and the offset are parsed and
  checked all the same.
\<close>

definition utf8 :: "string \<Rightarrow> string" where
  "utf8 s =
     concat (map (\<lambda>c. if (of_char c :: nat) < 128 then [c]
                      else [char_of (192 + (of_char c :: nat) div 64),
                            char_of (128 + (of_char c :: nat) mod 64)]) s)"

definition byte_at :: "string \<Rightarrow> nat \<Rightarrow> char" where
  "byte_at b i = (if i < length b then b ! i else CHR 0x00)"

text \<open>\<^verbatim>\<open>parse_digits\<close>: the number written by the \<open>n\<close> bytes from position \<open>p\<close>, all digits.\<close>

definition parse_digits :: "string \<Rightarrow> nat \<Rightarrow> nat \<Rightarrow> nat option" where
  "parse_digits b p n =
     (let ds = take n (drop p b)
      in if length ds = n \<and> list_all is_digit ds
         then Some (foldl (\<lambda>acc c. acc * 10 + digit_val c) 0 ds) else None)"

text \<open>
  \<^verbatim>\<open>_find_isoformat_datetime_separator\<close>: where the date part ends, from the length and
  the bytes at positions 4, 5, 8 and 10 (\<open>None\<close> is its return value -1).
\<close>

definition find_isoformat_datetime_separator :: "string \<Rightarrow> nat option" where
  "find_isoformat_datetime_separator b =
     (let len = length b
      in if len = 7 then Some 7
         else if byte_at b 4 = CHR ''-'' then
           (if byte_at b 5 = CHR ''W'' then
              (if len < 8 then None
               else if 8 < len \<and> byte_at b 8 = CHR ''-'' then
                 (if len = 9 then None
                  else if 10 < len \<and> is_digit (byte_at b 10) then Some 8
                  else Some 10)
               else Some 8)
            else Some 10)
         else if byte_at b 4 = CHR ''W'' then
           (let idx = 7 + length (takeWhile is_digit (drop 7 b))
            in if idx < 9 then Some idx else if even idx then Some 7 else Some 8)
         else Some 8)"

definition is_leap :: "nat \<Rightarrow> bool" where
  "is_leap y = (y mod 4 = 0 \<and> (y mod 100 \<noteq> 0 \<or> y mod 400 = 0))"

definition days_in_month :: "nat \<Rightarrow> nat \<Rightarrow> nat" where
  "days_in_month y m =
     (if m = 2 \<and> is_leap y then 29
      else [31, 28, 31, 30, 31, 30, 31, 31, 30, 31, 30, 31] ! (m - 1))"

definition valid_date :: "nat \<Rightarrow> nat \<Rightarrow> nat \<Rightarrow> bool" where
  "valid_date y m d =
     (1 \<le> y \<and> y \<le> 9999 \<and> 1 \<le> m \<and> m \<le> 12 \<and> 1 \<le> d \<and> d \<le> days_in_month y m)"

text \<open>
  The proleptic Gregorian ordinal of a date (1 January of year 1 is day 1), the day of
  the week as \<^verbatim>\<open>datetime.weekday\<close> computes it (Monday is 0), and the date of an ordinal.
\<close>

definition days_before_year :: "nat \<Rightarrow> nat" where
  "days_before_year y = (y - 1) * 365 + (y - 1) div 4 + (y - 1) div 400 - (y - 1) div 100"

definition days_before_month :: "nat \<Rightarrow> nat \<Rightarrow> nat" where
  "days_before_month y m =
     [0, 31, 59, 90, 120, 151, 181, 212, 243, 273, 304, 334] ! (m - 1) +
     (if m > 2 \<and> is_leap y then 1 else 0)"

definition ymd2ord :: "nat \<Rightarrow> nat \<Rightarrow> nat \<Rightarrow> nat" where
  "ymd2ord y m d = days_before_year y + days_before_month y m + d"

definition weekday :: "nat \<Rightarrow> nat \<Rightarrow> nat \<Rightarrow> nat" where
  "weekday y m d = (ymd2ord y m d + 6) mod 7"

definition ord2ymd :: "nat \<Rightarrow> nat \<times> nat \<times> nat" where
  "ord2ymd ordinal =
     (let n = ordinal - 1;
          n400 = n div 146097; r400 = n mod 146097;
          n100 = r400 div 36524; r100 = r400 mod 36524;
          n4 = r100 div 1461; r4 = r100 mod 1461;
          n1 = r4 div 365; r1 = r4 mod 365;
          year = n400 * 400 + 1 + n100 * 100 + n4 * 4 + n1
      in if n1 = 4 \<or> n100 = 4 then (year - 1, 12, 31)
         else
           let leapyear = (n1 = 3 \<and> (n4 \<noteq> 24 \<or> n100 = 3));
               month = (r1 + 50) div 32;
               preceding =
                 [0, 31, 59, 90, 120, 151, 181, 212, 243, 273, 304, 334] ! (month - 1) +
                 (if month > 2 \<and> leapyear then 1 else 0)
           in if preceding > r1 then
                (year, month - 1,
                 r1 + ([31, 28, 31, 30, 31, 30, 31, 31, 30, 31, 30, 31] ! (month - 2) +
                       (if month - 1 = 2 \<and> leapyear then 1 else 0)) - preceding + 1)
              else (year, month, r1 - preceding + 1))"

text \<open>
  A week date: \<^verbatim>\<open>iso_to_ymd\<close>, with \<^verbatim>\<open>iso_week1_monday\<close> the ordinal of the Monday that
  begins week 1 of the year. A year has a week 53 when it begins on a Thursday, or on a
  Wednesday and is a leap year.
\<close>

definition iso_week1_monday :: "nat \<Rightarrow> nat" where
  "iso_week1_monday year =
     (let first_day = ymd2ord year 1 1;
          first_weekday = (first_day + 6) mod 7;
          week1_monday = first_day - first_weekday
      in if first_weekday > 3 then week1_monday + 7 else week1_monday)"

definition iso_to_ymd :: "nat \<Rightarrow> nat \<Rightarrow> nat \<Rightarrow> (nat \<times> nat \<times> nat) option" where
  "iso_to_ymd iso_year iso_week iso_day =
     (if iso_year < 1 then None
      else if (iso_week = 0 \<or> 53 \<le> iso_week) \<and>
              \<not> (iso_week = 53 \<and>
                 (weekday iso_year 1 1 = 3 \<or> (weekday iso_year 1 1 = 2 \<and> is_leap iso_year)))
      then None
      else if iso_day = 0 \<or> 8 \<le> iso_day then None
      else Some (ord2ymd (iso_week1_monday iso_year + (iso_week - 1) * 7 + iso_day - 1)))"

text \<open>
  \<^verbatim>\<open>parse_isoformat_date\<close> reads \<^verbatim>\<open>YYYY-MM-DD\<close>, \<^verbatim>\<open>YYYYMMDD\<close> and the week dates
  \<^verbatim>\<open>YYYY-Www\<close>, \<^verbatim>\<open>YYYYWww\<close>, \<^verbatim>\<open>YYYY-Www-D\<close>, \<^verbatim>\<open>YYYYWwwD\<close>; \<open>len\<close> is the position of the
  separator.
\<close>

definition parse_isoformat_date :: "string \<Rightarrow> nat \<Rightarrow> (nat \<times> nat \<times> nat) option" where
  "parse_isoformat_date b len =
     (case parse_digits b 0 4 of None \<Rightarrow> None
      | Some year \<Rightarrow>
          let uses_separator = (byte_at b 4 = CHR ''-'');
              p = (if uses_separator then 5 else 4)
          in if byte_at b p = CHR ''W'' then
               (case parse_digits b (p + 1) 2 of None \<Rightarrow> None
                | Some iso_week \<Rightarrow>
                    if p + 3 < len then
                      (if uses_separator \<and> byte_at b (p + 3) \<noteq> CHR ''-'' then None
                       else
                         (case parse_digits b (if uses_separator then p + 4 else p + 3) 1 of
                            None \<Rightarrow> None
                          | Some iso_day \<Rightarrow> iso_to_ymd year iso_week iso_day))
                    else iso_to_ymd year iso_week 1)
             else
               (case parse_digits b p 2 of None \<Rightarrow> None
                | Some month \<Rightarrow>
                    if uses_separator \<and> byte_at b (p + 2) \<noteq> CHR ''-'' then None
                    else
                      (case parse_digits b (if uses_separator then p + 3 else p + 2) 2 of
                         None \<Rightarrow> None
                       | Some day \<Rightarrow> Some (year, month, day))))"

text \<open>
  \<^verbatim>\<open>parse_hh_mm_ss_ff\<close> reads \<^verbatim>\<open>HH[:MM[:SS]]\<close> or \<^verbatim>\<open>HH[MM[SS]]\<close> up to position \<open>e\<close>, then a
  fraction of a second. \<open>hms k\<close> is its loop with \<open>k\<close> components still to read; the
  components read so far are \<open>vals\<close>. The result is the flag the C function returns (1
  when it stopped before the end of the string), the components and the microseconds;
  \<open>None\<close> is a negative return value.
\<close>

definition fraction :: "string \<Rightarrow> nat \<Rightarrow> nat \<Rightarrow> nat list \<Rightarrow> (bool \<times> nat list \<times> nat) option" where
  "fraction b e p vals =
     (let to_parse = min (e - p) 6
      in case parse_digits b p to_parse of None \<Rightarrow> None
         | Some microsecond \<Rightarrow>
             let q = p + to_parse + length (takeWhile is_digit (drop (p + to_parse) b))
             in Some (byte_at b q \<noteq> CHR 0x00, vals, microsecond * 10 ^ (6 - to_parse)))"

fun hms :: "nat \<Rightarrow> string \<Rightarrow> nat \<Rightarrow> nat \<Rightarrow> bool \<Rightarrow> nat list \<Rightarrow> (bool \<times> nat list \<times> nat) option" where
  "hms 0 b e p has_separator vals = fraction b e p vals"
| "hms (Suc k) b e p has_separator vals =
     (case parse_digits b p 2 of None \<Rightarrow> None
      | Some v \<Rightarrow>
          let c = byte_at b (p + 2);
              sep = (if vals = [] then c = CHR '':'' else has_separator)
          in if e \<le> p + 3 then Some (c \<noteq> CHR 0x00, vals @ [v], 0)
             else if sep \<and> c = CHR '':'' then hms k b e (p + 3) sep (vals @ [v])
             else if c = CHR ''.'' \<or> c = CHR '','' then fraction b e (p + 3) (vals @ [v])
             else if \<not> sep then hms k b e (p + 2) sep (vals @ [v])
             else None)"

definition parse_hh_mm_ss_ff :: "string \<Rightarrow> nat \<Rightarrow> nat \<Rightarrow> (bool \<times> nat list \<times> nat) option" where
  "parse_hh_mm_ss_ff b p e = hms (Suc (Suc (Suc 0))) b e p True []"

definition component :: "nat list \<Rightarrow> nat \<Rightarrow> nat" where
  "component vals i = (if i < length vals then vals ! i else 0)"

text \<open>
  \<^verbatim>\<open>parse_isoformat_time\<close>: the time of day runs to the first \<^verbatim>\<open>Z\<close>, \<^verbatim>\<open>+\<close> or \<^verbatim>\<open>-\<close>; after a
  sign comes the offset, in the same format. Then the constructor's checks: the time of
  day within its ranges, the offset strictly less than 24 hours.
\<close>

definition is_tz_char :: "char \<Rightarrow> bool" where
  "is_tz_char c = (c = CHR ''Z'' \<or> c = CHR ''+'' \<or> c = CHR ''-'')"

definition time_in_range :: "nat list \<Rightarrow> nat \<Rightarrow> bool" where
  "time_in_range vals microsecond =
     (component vals 0 \<le> 23 \<and> component vals 1 \<le> 59 \<and> component vals 2 \<le> 59 \<and>
      microsecond \<le> 999999)"

definition offset_in_range :: "nat list \<Rightarrow> nat \<Rightarrow> bool" where
  "offset_in_range vals microsecond =
     ((component vals 0 * 3600 + component vals 1 * 60 + component vals 2) * 1000000 +
        microsecond < 86400 * 1000000)"

definition parse_isoformat_time :: "string \<Rightarrow> nat \<Rightarrow> bool" where
  "parse_isoformat_time b p =
     (let tzinfo_pos = p + length (takeWhile (\<lambda>c. \<not> is_tz_char c) (drop p b))
      in case parse_hh_mm_ss_ff b p tzinfo_pos of None \<Rightarrow> False
         | Some (stopped, vals, microsecond) \<Rightarrow>
             if tzinfo_pos = length b then \<not> stopped \<and> time_in_range vals microsecond
             else if byte_at b tzinfo_pos = CHR ''Z'' then
               byte_at b (tzinfo_pos + 1) = CHR 0x00 \<and> time_in_range vals microsecond
             else
               (case parse_hh_mm_ss_ff b (tzinfo_pos + 1) (length b) of None \<Rightarrow> False
                | Some (tz_stopped, tz_vals, tz_microsecond) \<Rightarrow>
                    \<not> tz_stopped \<and> time_in_range vals microsecond \<and>
                    offset_in_range tz_vals tz_microsecond))"

definition fromisoformat :: "string \<Rightarrow> error + (nat \<times> nat \<times> nat)" where
  "fromisoformat s =
     (let b = utf8 s
      in case find_isoformat_datetime_separator b of None \<Rightarrow> Inl ValueError
         | Some separator_location \<Rightarrow>
             (case parse_isoformat_date b separator_location of None \<Rightarrow> Inl ValueError
              | Some (y, m, d) \<Rightarrow>
                  if (length b \<le> separator_location \<or>
                      parse_isoformat_time b
                        (separator_location +
                         (if (of_char (byte_at b separator_location) :: nat) < 128 then 1 else 2)))
                     \<and> valid_date y m d
                  then Inr (y, m, d) else Inl ValueError))"

definition weekday_names :: "string list" where
  "weekday_names =
     [''Monday'', ''Tuesday'', ''Wednesday'', ''Thursday'', ''Friday'', ''Saturday'', ''Sunday'']"

definition month_names :: "string list" where
  "month_names =
     [''January'', ''February'', ''March'', ''April'', ''May'', ''June'', ''July'', ''August'',
      ''September'', ''October'', ''November'', ''December'']"

definition zero_pad :: "nat \<Rightarrow> string \<Rightarrow> string" where
  "zero_pad w s = replicate (w - length s) (CHR ''0'') @ s"

text \<open>
  \<^verbatim>\<open>strftime("%A %d %B %Y")\<close> in the C locale, as the C library of a Linux system prints
  it: the full weekday name, the day of the month in two digits, the full month name
  and the year in decimal, with no leading zeros (\<^verbatim>\<open>999\<close>, not \<^verbatim>\<open>0999\<close>).
\<close>

definition strftime :: "nat \<times> nat \<times> nat \<Rightarrow> string" where
  "strftime dt =
     (case dt of (y, m, d) \<Rightarrow>
        weekday_names ! weekday y m d @ '' '' @ zero_pad 2 (str_of_nat d) @ '' '' @
        month_names ! (m - 1) @ '' '' @ str_of_nat y)"

definition convert_date :: "string \<Rightarrow> error + string" where
  "convert_date iso_string =
     (case fromisoformat iso_string of Inl e \<Rightarrow> Inl e | Inr dt \<Rightarrow> Inr (strftime dt))"

text \<open>\<^verbatim>\<open>date.isoformat()\<close>: the text \<^verbatim>\<open>YYYY-MM-DD\<close> of a date.\<close>

definition isoformat :: "nat \<Rightarrow> nat \<Rightarrow> nat \<Rightarrow> string" where
  "isoformat y m d =
     zero_pad 4 (str_of_nat y) @ ''-'' @ zero_pad 2 (str_of_nat m) @ ''-'' @
     zero_pad 2 (str_of_nat d)"

text \<open>
  Following the spec's words, "a valid ISO-8601 calendar date": the calendar-date
  representations of ISO 8601, complete (\<^verbatim>\<open>YYYY-MM-DD\<close>, \<^verbatim>\<open>YYYYMMDD\<close>) and of reduced
  precision (\<^verbatim>\<open>YYYY-MM\<close>, \<^verbatim>\<open>YYYY\<close>). In a pattern \<open>d\<close> stands for a digit and every other
  character for itself.
\<close>

fun matches :: "string \<Rightarrow> string \<Rightarrow> bool" where
  "matches [] [] = True"
| "matches (p # ps) (c # cs) = ((if p = CHR ''d'' then is_digit c else c = p) \<and> matches ps cs)"
| "matches _ _ = False"

definition number_at :: "string \<Rightarrow> nat \<Rightarrow> nat \<Rightarrow> nat" where
  "number_at s i n = foldl (\<lambda>acc c. acc * 10 + digit_val c) 0 (take n (drop i s))"

definition iso8601_calendar_date :: "string \<Rightarrow> bool" where
  "iso8601_calendar_date s =
     ((matches ''dddd-dd-dd'' s \<and> 1 \<le> number_at s 5 2 \<and> number_at s 5 2 \<le> 12 \<and>
         1 \<le> number_at s 8 2 \<and> number_at s 8 2 \<le> days_in_month (number_at s 0 4) (number_at s 5 2)) \<or>
      (matches ''dddddddd'' s \<and> 1 \<le> number_at s 4 2 \<and> number_at s 4 2 \<le> 12 \<and>
         1 \<le> number_at s 6 2 \<and> number_at s 6 2 \<le> days_in_month (number_at s 0 4) (number_at s 4 2)) \<or>
      (matches ''dddd-dd'' s \<and> 1 \<le> number_at s 5 2 \<and> number_at s 5 2 \<le> 12) \<or>
      matches ''dddd'' s)"

section \<open>Unit conversion\<close>

text \<open>
  \<^verbatim>\<open>round((float(temp_in_fahrenheit) - 32) * 5 / 9, 1)\<close>, in float arithmetic: the ints
  32, 5 and 9 are converted for the operation, which for these never overflows.
\<close>

definition celsius :: "'f float_ops \<Rightarrow> 'f \<Rightarrow> 'f" where
  "celsius fl x =
     fround fl
       (fdiv fl (fmul fl (fsub fl x (float_of_int fl 32)) (float_of_int fl 5))
          (float_of_int fl 9))
       1"

definition convert_f_to_c :: "'f float_ops \<Rightarrow> 'f pynum \<Rightarrow> error + 'f" where
  "convert_f_to_c fl temp_in_fahrenheit =
     (case py_float fl temp_in_fahrenheit of Inl e \<Rightarrow> Inl e | Inr x \<Rightarrow> Inr (celsius fl x))"

section \<open>Loading\<close>

text \<open>
  \<^verbatim>\<open>int(s)\<close> on a string, as CPython 3.11 reads it: surrounding whitespace is dropped
  (the ASCII whitespace 9 to 13 and 32, and the two other spaces below 256, U+0085 and
  U+00A0), then come an optional sign and decimal digits, where single underscores may
  stand between digits. A text of more than 4300 digits, the interpreter's default
  limit, is refused. Anything refused raises ValueError.
\<close>

definition is_space :: "char \<Rightarrow> bool" where
  "is_space c = ((of_char c :: nat) \<in> set [9, 10, 11, 12, 13, 32, 133, 160])"

definition strip :: "string \<Rightarrow> string" where
  "strip s = rev (dropWhile is_space (rev (dropWhile is_space s)))"

definition is_sign :: "char \<Rightarrow> bool" where
  "is_sign c = (c = CHR ''+'' \<or> c = CHR ''-'')"

definition max_str_digits :: nat where
  "max_str_digits = 4300"

fun int_digits :: "nat \<Rightarrow> string \<Rightarrow> nat option" where
  "int_digits acc [] = Some acc"
| "int_digits acc [c] = (if is_digit c then Some (acc * 10 + digit_val c) else None)"
| "int_digits acc (c # d # cs) =
     (if is_digit c then int_digits (acc * 10 + digit_val c) (d # cs)
      else if c = CHR ''_'' \<and> is_digit d then int_digits (acc * 10 + digit_val d) cs
      else None)"

definition py_int :: "string \<Rightarrow> error + int" where
  "py_int s =
     (let t = strip s;
          negative = (t \<noteq> [] \<and> hd t = CHR ''-'');
          body = (if t \<noteq> [] \<and> is_sign (hd t) then tl t else t)
      in case body of
           [] \<Rightarrow> Inl ValueError
         | c # cs \<Rightarrow>
             (if is_digit c \<and> length (filter is_digit body) \<le> max_str_digits then
                (case int_digits (digit_val c) cs of
                   None \<Rightarrow> Inl ValueError
                 | Some n \<Rightarrow> Inr (if negative then - int n else int n))
              else Inl ValueError))"

text \<open>
  A loaded record is the list \<^verbatim>\<open>[row[0], int(row[1]), int(row[2])]\<close>: the date as read and
  the two temperatures in Fahrenheit. The summaries read it by position (\<^verbatim>\<open>day[0]\<close>,
  \<^verbatim>\<open>day[1]\<close>, \<^verbatim>\<open>day[2]\<close>); as a record it always has its three fields.
\<close>

record weather_day =
  date :: string
  min_temp_f :: int
  max_temp_f :: int

text \<open>
  The elements of the list display are evaluated from left to right, so a row raises at
  the first of \<^verbatim>\<open>row[1]\<close>, \<^verbatim>\<open>int(row[1])\<close>, \<^verbatim>\<open>row[2]\<close>, \<^verbatim>\<open>int(row[2])\<close> that fails: IndexError
  for a missing field, ValueError for a field that is no integer.
\<close>

definition process_row :: "string list \<Rightarrow> error + weather_day" where
  "process_row row =
     (case py_getitem row 0 of Inl e \<Rightarrow> Inl e | Inr f0 \<Rightarrow>
      (case py_getitem row 1 of Inl e \<Rightarrow> Inl e | Inr f1 \<Rightarrow>
      (case py_int f1 of Inl e \<Rightarrow> Inl e | Inr lo \<Rightarrow>
      (case py_getitem row 2 of Inl e \<Rightarrow> Inl e | Inr f2 \<Rightarrow>
      (case py_int f2 of Inl e \<Rightarrow> Inl e | Inr hi \<Rightarrow>
        Inr \<lparr>date = f0, min_temp_f = lo, max_temp_f = hi\<rparr>)))))"

text \<open>
  The loop \<^verbatim>\<open>for row in reader\<close>, with \<open>data\<close> the list built so far. The rows are what
  \<^verbatim>\<open>csv.reader\<close> yields: one list of fields for each line, the empty list for a blank line.
  Opening the file and splitting its lines into fields are the standard library's and
  outside the model.
\<close>

fun load_rows :: "string list list \<Rightarrow> weather_day list \<Rightarrow> error + weather_day list" where
  "load_rows [] data = Inr data"
| "load_rows (row # rows) data =
     (if row \<noteq> [] then
        (case process_row row of
           Inl e \<Rightarrow> Inl e
         | Inr processed_row \<Rightarrow> load_rows rows (data @ [processed_row]))
      else load_rows rows data)"

text \<open>\<^verbatim>\<open>next(reader)\<close> raises StopIteration when the reader has no row at all.\<close>

definition load_data_from_csv :: "string list list \<Rightarrow> error + weather_day list" where
  "load_data_from_csv reader =
     (case reader of
        [] \<Rightarrow> Inl StopIteration
      | header # rows \<Rightarrow> load_rows rows [])"

text \<open>
  Two kinds of row. A row the loader accepts has at least three fields, the second and
  the third read by \<^verbatim>\<open>int\<close>. A well-formed row, as the input format describes it, has
  exactly three. \<open>row_failure\<close> is the exception of a row the loader does not accept.
\<close>

definition is_int :: "string \<Rightarrow> bool" where
  "is_int s = (case py_int s of Inl e \<Rightarrow> False | Inr n \<Rightarrow> True)"

definition loadable_row :: "string list \<Rightarrow> bool" where
  "loadable_row row = (3 \<le> length row \<and> is_int (row ! 1) \<and> is_int (row ! 2))"

definition well_formed_row :: "string list \<Rightarrow> bool" where
  "well_formed_row row = (length row = 3 \<and> is_int (row ! 1) \<and> is_int (row ! 2))"

definition row_failure :: "string list \<Rightarrow> error" where
  "row_failure row =
     (if length row < 2 then IndexError
      else if \<not> is_int (row ! 1) then ValueError
      else if length row < 3 then IndexError
      else ValueError)"

section \<open>Summaries\<close>

text \<open>
  Both summaries convert the temperatures of a record with \<^verbatim>\<open>float(day[1])\<close> and
  \<^verbatim>\<open>float(day[2])\<close>, on ints, which raises OverflowError on an int beyond the range of a
  float. Every later call receives these floats. The statements of \<^verbatim>\<open>generate_summary\<close>
  follow in the order of the source; unpacking the empty tuple would raise ValueError.
\<close>

definition generate_summary :: "'f float_ops \<Rightarrow> weather_day list \<Rightarrow> error + string" where
  "generate_summary fl weather_data =
     (if weather_data = [] then Inr []
      else
        (case map_result (\<lambda>day. py_float fl (PyInt (min_temp_f day))) weather_data of
           Inl e \<Rightarrow> Inl e
        | Inr min_temps \<Rightarrow>
        (case map_result (\<lambda>day. py_float fl (PyInt (max_temp_f day))) weather_data of
           Inl e \<Rightarrow> Inl e
        | Inr max_temps \<Rightarrow>
        (case find_min fl (map PyFloat min_temps) of Inl e \<Rightarrow> Inl e | Inr None \<Rightarrow> Inl ValueError
        | Inr (Some (overall_min, min_index)) \<Rightarrow>
        (case find_max fl (map PyFloat max_temps) of Inl e \<Rightarrow> Inl e | Inr None \<Rightarrow> Inl ValueError
        | Inr (Some (overall_max, max_index)) \<Rightarrow>
        (case convert_f_to_c fl (PyFloat overall_min) of Inl e \<Rightarrow> Inl e | Inr overall_min_c \<Rightarrow>
        (case convert_f_to_c fl (PyFloat overall_max) of Inl e \<Rightarrow> Inl e | Inr overall_max_c \<Rightarrow>
        (case py_getitem weather_data min_index of Inl e \<Rightarrow> Inl e | Inr min_day \<Rightarrow>
        (case convert_date (date min_day) of Inl e \<Rightarrow> Inl e | Inr min_date \<Rightarrow>
        (case py_getitem weather_data max_index of Inl e \<Rightarrow> Inl e | Inr max_day \<Rightarrow>
        (case convert_date (date max_day) of Inl e \<Rightarrow> Inl e | Inr max_date \<Rightarrow>
        (case map_result (convert_f_to_c fl) (map PyFloat min_temps) of Inl e \<Rightarrow> Inl e
        | Inr lows \<Rightarrow>
        (case calculate_mean fl (map PyFloat lows) of Inl e \<Rightarrow> Inl e | Inr mean_low \<Rightarrow>
        (case map_result (convert_f_to_c fl) (map PyFloat max_temps) of Inl e \<Rightarrow> Inl e
        | Inr highs \<Rightarrow>
        (case calculate_mean fl (map PyFloat highs) of Inl e \<Rightarrow> Inl e | Inr mean_high \<Rightarrow>
          let avg_low = fround fl mean_low 1;
              avg_high = fround fl mean_high 1;
              num_days = length weather_data
          in Inr
            (str_of_nat num_days @ '' Day Overview'' @ newline @
             ''  The lowest temperature will be '' @ format_temperature fl overall_min_c @
             '', and will occur on '' @ min_date @ ''.'' @ newline @
             ''  The highest temperature will be '' @ format_temperature fl overall_max_c @
             '', and will occur on '' @ max_date @ ''.'' @ newline @
             ''  The average low this week is '' @ format_temperature fl avg_low @
             ''.'' @ newline @
             ''  The average high this week is '' @ format_temperature fl avg_high @
             ''.'' @ newline))))))))))))))))"

text \<open>The body of the loop \<^verbatim>\<open>for day in weather_data\<close>, with \<open>summary\<close> the text so far.\<close>

fun daily_loop :: "'f float_ops \<Rightarrow> weather_day list \<Rightarrow> string \<Rightarrow> error + string" where
  "daily_loop fl [] summary = Inr summary"
| "daily_loop fl (day # days) summary =
     (case convert_date (date day) of Inl e \<Rightarrow> Inl e | Inr date_str \<Rightarrow>
      (case py_float fl (PyInt (min_temp_f day)) of Inl e \<Rightarrow> Inl e | Inr min_float \<Rightarrow>
      (case py_float fl (PyInt (max_temp_f day)) of Inl e \<Rightarrow> Inl e | Inr max_float \<Rightarrow>
      (case convert_f_to_c fl (PyFloat min_float) of Inl e \<Rightarrow> Inl e | Inr min_temp_c \<Rightarrow>
      (case convert_f_to_c fl (PyFloat max_float) of Inl e \<Rightarrow> Inl e | Inr max_temp_c \<Rightarrow>
        daily_loop fl days
          (summary @ ''---- '' @ date_str @ '' ----'' @ newline @
           ''  Minimum Temperature: '' @ format_temperature fl min_temp_c @ newline @
           ''  Maximum Temperature: '' @ format_temperature fl max_temp_c @ newline @
           newline))))))"

definition generate_daily_summary :: "'f float_ops \<Rightarrow> weather_day list \<Rightarrow> error + string" where
  "generate_daily_summary fl weather_data =
     (if weather_data = [] then Inr [] else daily_loop fl weather_data [])"

text \<open>
  Following the spec's words, the block of one record: the line of the formatted date
  between dashes, the minimum and the maximum in Celsius with the unit, a blank line.
  It raises what the record makes the loop raise: the date's ValueError first, then the
  OverflowError of a temperature beyond the range of a float.
\<close>

definition daily_block :: "'f float_ops \<Rightarrow> weather_day \<Rightarrow> error + string" where
  "daily_block fl day =
     (case convert_date (date day) of Inl e \<Rightarrow> Inl e | Inr date_str \<Rightarrow>
      (if float_int_limit \<le> \<bar>min_temp_f day\<bar> \<or> float_int_limit \<le> \<bar>max_temp_f day\<bar>
       then Inl OverflowError
       else Inr
         (''---- '' @ date_str @ '' ----'' @ newline @
          ''  Minimum Temperature: '' @
            fstr fl (celsius fl (float_of_int fl (min_temp_f day))) @ DEGREE_SYMBOL @ newline @
          ''  Maximum Temperature: '' @
            fstr fl (celsius fl (float_of_int fl (max_temp_f day))) @ DEGREE_SYMBOL @ newline @
          newline)))"

section \<open>Binary64\<close>

text \<open>
  The float primitives as CPython 3.11 computes them. A binary64 number is finite, with
  a sign and a magnitude (so there are two zeros), or an infinity, or NaN. Every
  operation computes the exact result and rounds it once, to the nearest binary64, a tie
  to the one whose last bit is 0.
\<close>

datatype float64 = Finite bool real | Infinity bool | NaN

definition round_half_even :: "real \<Rightarrow> int" where
  "round_half_even x =
     (let f = \<lfloor>x\<rfloor>; r = x - of_int f
      in if r < 1 / 2 then f else if 1 / 2 < r then f + 1 else if even f then f else f + 1)"

fun bit_length :: "nat \<Rightarrow> nat" where
  "bit_length n = (if n = 0 then 0 else Suc (bit_length (n div 2)))"

declare bit_length.simps [simp del]

text \<open>For \<open>x > 0\<close>: the exponent \<open>e\<close> with \<open>2\<^sup>e \<le> x < 2\<^sup>e\<^sup>+\<^sup>1\<close>, and \<open>x\<close> times \<open>2\<^sup>k\<close>.\<close>

definition floor_log2 :: "real \<Rightarrow> int" where
  "floor_log2 x =
     (if 1 \<le> x then int (bit_length (nat \<lfloor>x\<rfloor>)) - 1
      else - int (bit_length (nat (\<lceil>1 / x\<rceil> - 1))))"

definition scale2 :: "real \<Rightarrow> int \<Rightarrow> real" where
  "scale2 x k = (if 0 \<le> k then x * 2 ^ nat k else x / 2 ^ nat (- k))"

text \<open>
  Rounding a magnitude \<open>x \<ge> 0\<close>: to 53 significant bits, or to a multiple of
  \<open>2\<^sup>-\<^sup>1\<^sup>0\<^sup>7\<^sup>4\<close> below \<open>2\<^sup>-\<^sup>1\<^sup>0\<^sup>2\<^sup>2\<close>; a result of \<open>2\<^sup>1\<^sup>0\<^sup>2\<^sup>4\<close> or more is the infinity.
\<close>

definition round_binary64 :: "bool \<Rightarrow> real \<Rightarrow> float64" where
  "round_binary64 negative x =
     (if x = 0 then Finite negative 0
      else
        let e = max (floor_log2 x) (- 1022);
            y = scale2 (of_int (round_half_even (scale2 x (52 - e)))) (e - 52)
        in if 2 ^ 1024 \<le> y then Infinity negative else Finite negative y)"

text \<open>
  The value by which floats are compared. An infinity stands beyond every finite
  binary64.
\<close>

fun float64_value :: "float64 \<Rightarrow> real" where
  "float64_value (Finite s m) = (if s then - m else m)"
| "float64_value (Infinity s) = (if s then - (2 ^ 1024) else 2 ^ 1024)"
| "float64_value NaN = 0"

fun float64_neg :: "float64 \<Rightarrow> float64" where
  "float64_neg (Finite s m) = Finite (\<not> s) m"
| "float64_neg (Infinity s) = Infinity (\<not> s)"
| "float64_neg NaN = NaN"

text \<open>
  An exact sum of zero is \<open>+0\<close>, unless both operands are negative (zeros); \<open>x - y\<close> is
  \<open>x + (-y)\<close>. The sign of a product or quotient is the exclusive or of the signs.
\<close>

fun float64_add :: "float64 \<Rightarrow> float64 \<Rightarrow> float64" where
  "float64_add (Finite s a) (Finite t b) =
     (let r = float64_value (Finite s a) + float64_value (Finite t b)
      in if r = 0 then Finite (s \<and> t) 0 else round_binary64 (r < 0) \<bar>r\<bar>)"
| "float64_add (Finite s a) (Infinity t) = Infinity t"
| "float64_add (Infinity s) (Finite t b) = Infinity s"
| "float64_add (Infinity s) (Infinity t) = (if s = t then Infinity s else NaN)"
| "float64_add NaN y = NaN"
| "float64_add x NaN = NaN"

definition float64_sub :: "float64 \<Rightarrow> float64 \<Rightarrow> float64" where
  "float64_sub x y = float64_add x (float64_neg y)"

fun float64_mul :: "float64 \<Rightarrow> float64 \<Rightarrow> float64" where
  "float64_mul (Finite s a) (Finite t b) = round_binary64 (s \<noteq> t) (a * b)"
| "float64_mul (Finite s a) (Infinity t) = (if a = 0 then NaN else Infinity (s \<noteq> t))"
| "float64_mul (Infinity s) (Finite t b) = (if b = 0 then NaN else Infinity (s \<noteq> t))"
| "float64_mul (Infinity s) (Infinity t) = Infinity (s \<noteq> t)"
| "float64_mul NaN y = NaN"
| "float64_mul x NaN = NaN"

text \<open>
  The division of the hardware. Python's \<^verbatim>\<open>/\<close> raises ZeroDivisionError on a divisor of
  zero before it divides; the program divides by 9 and by a length that is not 0.
\<close>

fun float64_div :: "float64 \<Rightarrow> float64 \<Rightarrow> float64" where
  "float64_div (Finite s a) (Finite t b) =
     (if b = 0 then (if a = 0 then NaN else Infinity (s \<noteq> t))
      else round_binary64 (s \<noteq> t) (a / b))"
| "float64_div (Finite s a) (Infinity t) = Finite (s \<noteq> t) 0"
| "float64_div (Infinity s) (Finite t b) = Infinity (s \<noteq> t)"
| "float64_div (Infinity s) (Infinity t) = NaN"
| "float64_div NaN y = NaN"
| "float64_div x NaN = NaN"

definition float64_of_int :: "int \<Rightarrow> float64" where
  "float64_of_int n = round_binary64 (n < 0) (of_int \<bar>n\<bar>)"

text \<open>
  \<^verbatim>\<open>sum\<close> adds from the left, starting from 0 (up to Python 3.11; later versions
  compensate the rounding errors). \<^verbatim>\<open>round(x, n)\<close> rounds the exact value of \<open>x\<close> to \<open>n\<close>
  decimals, a tie to the even digit, and returns the binary64 nearest to that decimal.
\<close>

definition float64_sum :: "float64 list \<Rightarrow> float64" where
  "float64_sum xs = foldl float64_add (Finite False 0) xs"

fun float64_round :: "float64 \<Rightarrow> nat \<Rightarrow> float64" where
  "float64_round (Finite s m) n =
     round_binary64 s (of_int (round_half_even (m * 10 ^ n)) / 10 ^ n)"
| "float64_round (Infinity s) n = Infinity s"
| "float64_round NaN n = NaN"

text \<open>
  \<^verbatim>\<open>str\<close> of a float is \<^verbatim>\<open>repr\<close>: the shortest decimal that reads back as the float, the
  nearest one if several are as short. \<open>digits_at m p\<close> is the decimal of \<open>p\<close> significant
  digits for the magnitude \<open>m\<close>, as a number \<open>n\<close> of units \<open>10\<^sup>k\<close>, if one reads back. With
  the digits read as a fraction \<open>0.d\<dots>\<close> times \<open>10\<close> to the power \<open>decpt\<close>, the text is in
  fixed notation for \<open>-4 < decpt \<le> 16\<close> and with an exponent otherwise.
\<close>

fun num_digits :: "nat \<Rightarrow> nat" where
  "num_digits n = (if n = 0 then 0 else Suc (num_digits (n div 10)))"

declare num_digits.simps [simp del]

definition floor_log10 :: "real \<Rightarrow> int" where
  "floor_log10 x =
     (if 1 \<le> x then int (num_digits (nat \<lfloor>x\<rfloor>)) - 1
      else - int (num_digits (nat (\<lceil>1 / x\<rceil> - 1))))"

definition scale10 :: "real \<Rightarrow> int \<Rightarrow> real" where
  "scale10 x k = (if 0 \<le> k then x * 10 ^ nat k else x / 10 ^ nat (- k))"

definition digits_at :: "real \<Rightarrow> nat \<Rightarrow> (nat \<times> int) option" where
  "digits_at m p =
     (let k = floor_log10 m - (int p - 1);
          lo = nat \<lfloor>scale10 m (- k)\<rfloor>;
          hi = lo + 1;
          lo_ok = (0 < lo \<and> round_binary64 False (scale10 (of_nat lo) k) = Finite False m);
          hi_ok = (round_binary64 False (scale10 (of_nat hi) k) = Finite False m);
          dl = m - scale10 (of_nat lo) k;
          dh = scale10 (of_nat hi) k - m
      in if lo_ok \<and> (\<not> hi_ok \<or> dl < dh \<or> (dl = dh \<and> even lo)) then Some (lo, k)
         else if hi_ok then Some (hi, k)
         else None)"

fun first_digits :: "real \<Rightarrow> nat list \<Rightarrow> nat \<times> int" where
  "first_digits m [] = (0, 0)"
| "first_digits m (p # ps) =
     (case digits_at m p of Some r \<Rightarrow> r | None \<Rightarrow> first_digits m ps)"

definition shortest_digits :: "real \<Rightarrow> nat \<times> int" where
  "shortest_digits m =
     first_digits m [1, 2, 3, 4, 5, 6, 7, 8, 9, 10, 11, 12, 13, 14, 15, 16, 17]"

fun strip_zeros :: "nat \<Rightarrow> int \<Rightarrow> nat \<times> int" where
  "strip_zeros n k =
     (if 0 < n \<and> n mod 10 = 0 then strip_zeros (n div 10) (k + 1) else (n, k))"

declare strip_zeros.simps [simp del]

definition repr_digits :: "string \<Rightarrow> int \<Rightarrow> string" where
  "repr_digits digits decpt =
     (if - 4 < decpt \<and> decpt \<le> 16 then
        (if decpt \<le> 0 then ''0.'' @ replicate (nat (- decpt)) (CHR ''0'') @ digits
         else if int (length digits) \<le> decpt then
           digits @ replicate (nat decpt - length digits) (CHR ''0'') @ ''.0''
         else take (nat decpt) digits @ ''.'' @ drop (nat decpt) digits)
      else
        take 1 digits @ (if 1 < length digits then ''.'' @ drop 1 digits else []) @ ''e'' @
        (if decpt - 1 < 0 then ''-'' else ''+'') @
        zero_pad 2 (str_of_nat (nat \<bar>decpt - 1\<bar>)))"

fun float64_repr :: "float64 \<Rightarrow> string" where
  "float64_repr (Finite s m) =
     (if s then ''-'' else []) @
     (if m = 0 then ''0.0''
      else case shortest_digits m of (n, k) \<Rightarrow>
        (case strip_zeros n k of (n', k') \<Rightarrow>
           repr_digits (str_of_nat n') (int (length (str_of_nat n')) + k')))"
| "float64_repr (Infinity s) = (if s then ''-inf'' else ''inf'')"
| "float64_repr NaN = ''nan''"

text \<open>
  \<^verbatim>\<open>float(s)\<close> on a string: underscores may stand between digits only; without them and
  without the surrounding whitespace the text is an optional sign followed by
  \<^verbatim>\<open>inf\<close>, \<^verbatim>\<open>infinity\<close> or \<^verbatim>\<open>nan\<close> in any case of letters, or by a decimal numeral: digits
  with at most one point, then an optional exponent. The value is rounded to the
  nearest binary64 (beyond the range, to an infinity).
\<close>

fun underscores_ok :: "char \<Rightarrow> string \<Rightarrow> bool" where
  "underscores_ok prev [] = (prev \<noteq> CHR ''_'')"
| "underscores_ok prev (c # cs) =
     ((if c = CHR ''_'' then is_digit prev else prev \<noteq> CHR ''_'' \<or> is_digit c) \<and>
      underscores_ok c cs)"

definition same_letters :: "string \<Rightarrow> string \<Rightarrow> string \<Rightarrow> bool" where
  "same_letters s small capital =
     (length s = length small \<and>
      list_all (\<lambda>(c, l, u). c = l \<or> c = u) (zip s (zip small capital)))"

definition decimal_value :: "string \<Rightarrow> real option" where
  "decimal_value s =
     (let int_part = takeWhile is_digit s;
          rest = dropWhile is_digit s;
          frac_part = (if rest \<noteq> [] \<and> hd rest = CHR ''.'' then takeWhile is_digit (tl rest) else []);
          rest' = (if rest \<noteq> [] \<and> hd rest = CHR ''.'' then dropWhile is_digit (tl rest) else rest);
          has_exp = (rest' \<noteq> [] \<and> (hd rest' = CHR ''e'' \<or> hd rest' = CHR ''E''));
          exp_text = (if has_exp then tl rest' else []);
          exp_digits = (if exp_text \<noteq> [] \<and> is_sign (hd exp_text) then tl exp_text else exp_text);
          exponent =
            (if exp_text \<noteq> [] \<and> hd exp_text = CHR ''-''
             then - int (foldl (\<lambda>acc c. acc * 10 + digit_val c) 0 exp_digits)
             else int (foldl (\<lambda>acc c. acc * 10 + digit_val c) 0 exp_digits))
      in if int_part = [] \<and> frac_part = [] then None
         else if has_exp \<and> (exp_digits = [] \<or> \<not> list_all is_digit exp_digits) then None
         else if \<not> has_exp \<and> rest' \<noteq> [] then None
         else Some (scale10
                (of_nat (foldl (\<lambda>acc c. acc * 10 + digit_val c) 0 (int_part @ frac_part)))
                (exponent - int (length frac_part))))"

definition float64_of_str :: "string \<Rightarrow> float64 option" where
  "float64_of_str s =
     (if \<not> underscores_ok (CHR 0x00) s then None
      else
        let t = strip (filter (\<lambda>c. c \<noteq> CHR ''_'') s);
            negative = (t \<noteq> [] \<and> hd t = CHR ''-'');
            body = (if t \<noteq> [] \<and> is_sign (hd t) then tl t else t)
        in if same_letters body ''inf'' ''INF'' \<or> same_letters body ''infinity'' ''INFINITY''
           then Some (Infinity negative)
           else if same_letters body ''nan'' ''NAN'' then Some NaN
           else (case decimal_value body of None \<Rightarrow> None
                 | Some v \<Rightarrow> Some (round_binary64 negative v)))"

definition binary64_ops :: "float64 float_ops" where
  "binary64_ops =
     \<lparr>fval = float64_value,
      float_of_int = float64_of_int,
      float_of_str = float64_of_str,
      fsub = float64_sub,
      fmul = float64_mul,
      fdiv = float64_div,
      fsum = float64_sum,
      fround = float64_round,
      fstr = float64_repr\<rparr>"

section \<open>Binary64: integers are exact up to \<open>2\<^sup>5\<^sup>3\<close>\<close>









section \<open>The extremum and its last position\<close>







lemma map_result_length: "map_result f xs = Inr ys \<Longrightarrow> length ys = length xs"
  by (induction xs arbitrary: ys) (auto split: sum.splits)

lemma map_result_map: "(\<And>x. x \<in> set xs \<Longrightarrow> f x = Inr (g x)) \<Longrightarrow> map_result f xs = Inr (map g xs)"
  by (induction xs) auto

lemma map_result_Inr_iff:
  "map_result f xs = Inr ys \<longleftrightarrow> length ys = length xs \<and> (\<forall>i<length xs. f (xs ! i) = Inr (ys ! i))"
proof (induction xs arbitrary: ys)
  case Nil
  then show ?case by auto
next
  case (Cons x xs)
  show ?case
  proof (cases ys)
    case Nil
    then show ?thesis by (auto split: sum.splits)
  next
    case (Cons y ys')
    then show ?thesis
      using Cons.IH[of ys'] by (auto simp: nth_Cons less_Suc_eq_0_disj split: sum.splits nat.splits)
  qed
qed




















section \<open>The empty input\<close>

text \<open>
  Claim C5. On the empty list \<^verbatim>\<open>find_min\<close> and \<^verbatim>\<open>find_max\<close> return the empty tuple,
  neither an error nor a pair, and both summaries return the empty string, although
  \<^verbatim>\<open>calculate_mean\<close> raises on the empty list: the summaries return before they reach it.
\<close>

theorem empty_input_results:
  "find_min fl [] = Inr None \<and> find_max fl [] = Inr None \<and>
   generate_summary fl [] = Inr [] \<and> generate_daily_summary fl [] = Inr [] \<and>
   calculate_mean fl [] = Inl ZeroDivisionError"
  by (simp add: find_min_def find_max_def generate_summary_def generate_daily_summary_def
      calculate_mean_def)

section \<open>The loader\<close>

text \<open>
  The loop over the rows is the comprehension of \<open>process_row\<close> over the rows that are
  not empty, and the header is dropped unread.
\<close>

lemma map_result_Inl_iff:
  "(\<exists>e. map_result f xs = Inl e) \<longleftrightarrow> (\<exists>x\<in>set xs. \<exists>e. f x = Inl e)"
  by (induction xs) (auto split: sum.splits)

lemma map_result_error_from:
  "map_result f xs = Inl e \<Longrightarrow> \<exists>x\<in>set xs. f x = Inl e"
  by (induction xs) (auto split: sum.splits)

lemma load_rows_map_result:
  "load_rows rows data =
     (case map_result process_row (filter (\<lambda>r. r \<noteq> []) rows) of
        Inl e \<Rightarrow> Inl e | Inr rs \<Rightarrow> Inr (data @ rs))"
  by (induction rows arbitrary: data) (auto split: sum.splits)

lemma load_data_map_result:
  "load_data_from_csv (header # rows) = map_result process_row (filter (\<lambda>r. r \<noteq> []) rows)"
  by (simp add: load_data_from_csv_def load_rows_map_result split: sum.splits)

lemma process_row_Inr_iff:
  "process_row row = Inr r \<longleftrightarrow>
     3 \<le> length row \<and> date r = row ! 0 \<and> py_int (row ! 1) = Inr (min_temp_f r) \<and>
     py_int (row ! 2) = Inr (max_temp_f r)"
  by (cases r) (auto simp: process_row_def py_getitem_def split: sum.splits)

lemma process_row_loadable:
  "(\<exists>r. process_row row = Inr r) \<longleftrightarrow> loadable_row row"
  by (auto simp: process_row_def py_getitem_def loadable_row_def is_int_def split: sum.splits)

lemma py_int_error: "py_int s = Inl e \<Longrightarrow> e = ValueError"
  by (auto simp: py_int_def Let_def split: list.splits if_splits option.splits)

text \<open>The exception of a row follows the order in which its fields are read.\<close>

lemma process_row_failure:
  assumes "row \<noteq> []" "process_row row = Inl e"
  shows "e = row_failure row"
proof -
  have a: "py_int s = Inl e' \<Longrightarrow> e' = ValueError \<and> \<not> is_int s" for s e'
    by (auto simp: is_int_def dest: py_int_error)
  have b: "py_int s = Inr n \<Longrightarrow> is_int s" for s n
    by (simp add: is_int_def)
  from assms show ?thesis
    by (auto simp: process_row_def py_getitem_def row_failure_def
        split: sum.splits if_splits dest: a b)
qed

lemma load_rows_first_error:
  "load_rows rows data = Inl e \<Longrightarrow>
   \<exists>pre row post. rows = pre @ row # post \<and> (\<forall>r\<in>set pre. r = [] \<or> loadable_row r) \<and>
     row \<noteq> [] \<and> process_row row = Inl e"
proof (induction rows arbitrary: data)
  case Nil
  then show ?case by simp
next
  case (Cons r rows)
  show ?case
  proof (cases "r \<noteq> [] \<and> (\<exists>e'. process_row r = Inl e')")
    case True
    with Cons.prems have "process_row r = Inl e" by auto
    with True have "r # rows = [] @ r # rows \<and> (\<forall>r\<in>set []. r = [] \<or> loadable_row r) \<and>
        r \<noteq> [] \<and> process_row r = Inl e" by simp
    then show ?thesis by blast
  next
    case False
    then have ok: "r = [] \<or> loadable_row r"
      using process_row_loadable[of r] by (cases "process_row r") auto
    from False Cons.prems obtain data' where "load_rows rows data' = Inl e"
      by (cases "r = []"; cases "process_row r") auto
    from Cons.IH[OF this] obtain pre row post where
      p: "rows = pre @ row # post" "\<forall>r\<in>set pre. r = [] \<or> loadable_row r" "row \<noteq> []"
         "process_row row = Inl e" by blast
    have "r # rows = (r # pre) @ row # post" using p(1) by simp
    moreover have "\<forall>x\<in>set (r # pre). x = [] \<or> loadable_row x" using ok p(2) by auto
    ultimately show ?thesis using p(3,4) by blast
  qed
qed

lemma py_int_30: "py_int ''30'' = Inr 30"
  by (simp add: py_int_def strip_def is_space_def is_sign_def is_digit_def digit_val_def
      max_str_digits_def)

lemma py_int_80: "py_int ''80'' = Inr 80"
  by (simp add: py_int_def strip_def is_space_def is_sign_def is_digit_def digit_val_def
      max_str_digits_def)

lemma py_int_30_5: "py_int ''30.5'' = Inl ValueError"
  by (simp add: py_int_def strip_def is_space_def is_sign_def is_digit_def digit_val_def
      max_str_digits_def)

lemma py_int_x: "py_int ''x'' = Inl ValueError"
  by (simp add: py_int_def strip_def is_space_def is_sign_def is_digit_def digit_val_def
      max_str_digits_def)

lemma py_int_20: "py_int ''20'' = Inr 20"
  by (simp add: py_int_def strip_def is_space_def is_sign_def is_digit_def digit_val_def
      max_str_digits_def)

lemma py_int_90: "py_int ''90'' = Inr 90"
  by (simp add: py_int_def strip_def is_space_def is_sign_def is_digit_def digit_val_def
      max_str_digits_def)

text \<open>
  Claim C4, as the code has it. The loader raises exactly when some data row that is
  not empty has fewer than three fields or a second or third field that \<^verbatim>\<open>int\<close> rejects.
  The exception is that of the first such row: ValueError when the first thing to fail
  among \<^verbatim>\<open>row[1]\<close>, \<^verbatim>\<open>int(row[1])\<close>, \<^verbatim>\<open>row[2]\<close>, \<^verbatim>\<open>int(row[2])\<close> is a conversion, IndexError
  when it is a missing field. When the loader returns, there is one record for each row
  that is not empty, in order, and its temperatures are the integers \<^verbatim>\<open>int\<close> read: nothing
  is coerced. Fields after the third are ignored.
\<close>

theorem load_fails_on_malformed_rows:
  "((\<exists>e. load_data_from_csv (header # data) = Inl e) \<longleftrightarrow>
      (\<exists>row\<in>set data. row \<noteq> [] \<and> \<not> loadable_row row)) \<and>
   (load_data_from_csv (header # data) = Inl e \<longrightarrow>
      (\<exists>pre row post. data = pre @ row # post \<and> (\<forall>r\<in>set pre. r = [] \<or> loadable_row r) \<and>
         row \<noteq> [] \<and> \<not> loadable_row row \<and> e = row_failure row)) \<and>
   (load_data_from_csv (header # data) = Inr recs \<longrightarrow>
      length recs = length (filter (\<lambda>r. r \<noteq> []) data) \<and>
      (\<forall>i<length recs.
         date (recs ! i) = filter (\<lambda>r. r \<noteq> []) data ! i ! 0 \<and>
         py_int (filter (\<lambda>r. r \<noteq> []) data ! i ! 1) = Inr (min_temp_f (recs ! i)) \<and>
         py_int (filter (\<lambda>r. r \<noteq> []) data ! i ! 2) = Inr (max_temp_f (recs ! i))))"
proof (intro conjI impI)
  have "(\<exists>e. load_data_from_csv (header # data) = Inl e) \<longleftrightarrow>
        (\<exists>row\<in>set (filter (\<lambda>r. r \<noteq> []) data). \<exists>e. process_row row = Inl e)"
    by (simp only: load_data_map_result map_result_Inl_iff)
  also have "\<dots> \<longleftrightarrow> (\<exists>row\<in>set data. row \<noteq> [] \<and> \<not> loadable_row row)"
  proof -
    have "(\<exists>e. process_row row = Inl e) \<longleftrightarrow> \<not> loadable_row row" for row
      using process_row_loadable[of row] by (cases "process_row row") auto
    then show ?thesis by auto
  qed
  finally show "(\<exists>e. load_data_from_csv (header # data) = Inl e) \<longleftrightarrow>
      (\<exists>row\<in>set data. row \<noteq> [] \<and> \<not> loadable_row row)" .
next
  assume "load_data_from_csv (header # data) = Inl e"
  then have "load_rows data [] = Inl e" by (simp add: load_data_from_csv_def)
  from load_rows_first_error[OF this] obtain pre row post where
    p: "data = pre @ row # post" "\<forall>r\<in>set pre. r = [] \<or> loadable_row r" "row \<noteq> []"
       "process_row row = Inl e" by blast
  from p(4) have "\<not> loadable_row row"
    using process_row_loadable[of row] by auto
  moreover from process_row_failure[OF p(3,4)] have "e = row_failure row" .
  ultimately show "\<exists>pre row post. data = pre @ row # post \<and>
      (\<forall>r\<in>set pre. r = [] \<or> loadable_row r) \<and> row \<noteq> [] \<and> \<not> loadable_row row \<and>
      e = row_failure row"
    using p(1,2,3) by blast
next
  assume "load_data_from_csv (header # data) = Inr recs"
  then have m: "map_result process_row (filter (\<lambda>r. r \<noteq> []) data) = Inr recs"
    by (simp only: load_data_map_result)
  then show "length recs = length (filter (\<lambda>r. r \<noteq> []) data)"
    by (rule map_result_length)
  from m show "\<forall>i<length recs.
         date (recs ! i) = filter (\<lambda>r. r \<noteq> []) data ! i ! 0 \<and>
         py_int (filter (\<lambda>r. r \<noteq> []) data ! i ! 1) = Inr (min_temp_f (recs ! i)) \<and>
         py_int (filter (\<lambda>r. r \<noteq> []) data ! i ! 2) = Inr (max_temp_f (recs ! i))"
    by (simp add: map_result_Inr_iff process_row_Inr_iff)
qed

theorem load_fails_on_malformed_rows_witness:
  "\<not> loadable_row [''2021-07-06'', ''30.5'', ''80''] \<and>
   load_data_from_csv [[''date'', ''min'', ''max''], [], [''2021-07-06'', ''30.5'', ''80'']] =
     Inl ValueError \<and>
   row_failure [''2021-07-06'', ''30.5'', ''80''] = ValueError \<and>
   load_data_from_csv [[''date'', ''min'', ''max''], [''2021-07-06'', ''30'']] = Inl IndexError \<and>
   row_failure [''2021-07-06'', ''30''] = IndexError \<and>
   load_data_from_csv [[''date'', ''min'', ''max''], [''2021-07-06'', ''x'']] = Inl ValueError \<and>
   row_failure [''2021-07-06'', ''x''] = ValueError \<and>
   load_data_from_csv [[''date'', ''min'', ''max''], [], [''2021-07-06'', ''30'', ''80'']] =
     Inr [\<lparr>date = ''2021-07-06'', min_temp_f = 30, max_temp_f = 80\<rparr>]"
  using load_fails_on_malformed_rows [of "[''date'', ''min'', ''max'']"
      "[[], [''2021-07-06'', ''30.5'', ''80'']]" ValueError "[]"]
  by (simp add: load_data_from_csv_def process_row_def py_getitem_def py_int_30 py_int_80
      py_int_30_5 py_int_x loadable_row_def is_int_def row_failure_def)

text \<open>
  Claim C4 as stated fails: a row of four fields has the wrong field count, and the loader
  returns its record without complaint.
\<close>

theorem load_extra_field_counterexample:
  "[''2021-07-06'', ''30'', ''80'', ''extra''] \<noteq> [] \<and>
   length [''2021-07-06'', ''30'', ''80'', ''extra''] \<noteq> 3 \<and>
   load_data_from_csv [[''date'', ''min'', ''max''], [''2021-07-06'', ''30'', ''80'', ''extra'']] =
     Inr [\<lparr>date = ''2021-07-06'', min_temp_f = 30, max_temp_f = 80\<rparr>]"
  by (simp add: load_data_from_csv_def process_row_def py_getitem_def py_int_30 py_int_80)

text \<open>
  Claim C9. When every data row that is not empty is well-formed, the loader returns one
  record for each of them, in the order of the rows, holding the date as read and the two
  integers. The summaries are functions of the records: equal records give equal texts.
\<close>

theorem load_well_formed_in_order:
  "((\<forall>row\<in>set data. row \<noteq> [] \<longrightarrow> well_formed_row row) \<longrightarrow>
      (\<exists>recs. load_data_from_csv (header # data) = Inr recs \<and>
         length recs = length (filter (\<lambda>r. r \<noteq> []) data) \<and>
         (\<forall>i<length recs.
            date (recs ! i) = filter (\<lambda>r. r \<noteq> []) data ! i ! 0 \<and>
            py_int (filter (\<lambda>r. r \<noteq> []) data ! i ! 1) = Inr (min_temp_f (recs ! i)) \<and>
            py_int (filter (\<lambda>r. r \<noteq> []) data ! i ! 2) = Inr (max_temp_f (recs ! i))))) \<and>
   (ws = ws' \<longrightarrow>
      generate_summary fl ws = generate_summary fl ws' \<and>
      generate_daily_summary fl ws = generate_daily_summary fl ws')"
proof (intro conjI impI)
  assume wf: "\<forall>row\<in>set data. row \<noteq> [] \<longrightarrow> well_formed_row row"
  have "\<not> (\<exists>row\<in>set (filter (\<lambda>r. r \<noteq> []) data). \<exists>e. process_row row = Inl e)"
  proof
    assume "\<exists>row\<in>set (filter (\<lambda>r. r \<noteq> []) data). \<exists>e. process_row row = Inl e"
    then obtain row e where row: "row \<in> set data" "row \<noteq> []" "process_row row = Inl e" by auto
    with wf have "loadable_row row" by (auto simp: well_formed_row_def loadable_row_def)
    with process_row_loadable[of row] row(3) show False by auto
  qed
  moreover have "(\<exists>e. load_data_from_csv (header # data) = Inl e) \<longleftrightarrow>
        (\<exists>row\<in>set (filter (\<lambda>r. r \<noteq> []) data). \<exists>e. process_row row = Inl e)"
    by (simp only: load_data_map_result map_result_Inl_iff)
  ultimately have "\<not> (\<exists>e. load_data_from_csv (header # data) = Inl e)"
    by blast
  then obtain recs where recs: "load_data_from_csv (header # data) = Inr recs"
    by (cases "load_data_from_csv (header # data)") auto
  then have m: "map_result process_row (filter (\<lambda>r. r \<noteq> []) data) = Inr recs"
    by (simp only: load_data_map_result)
  have "length recs = length (filter (\<lambda>r. r \<noteq> []) data)"
    using m by (rule map_result_length)
  moreover from m have "\<forall>i<length recs.
            date (recs ! i) = filter (\<lambda>r. r \<noteq> []) data ! i ! 0 \<and>
            py_int (filter (\<lambda>r. r \<noteq> []) data ! i ! 1) = Inr (min_temp_f (recs ! i)) \<and>
            py_int (filter (\<lambda>r. r \<noteq> []) data ! i ! 2) = Inr (max_temp_f (recs ! i))"
    by (simp add: map_result_Inr_iff process_row_Inr_iff)
  ultimately show "\<exists>recs. load_data_from_csv (header # data) = Inr recs \<and>
         length recs = length (filter (\<lambda>r. r \<noteq> []) data) \<and>
         (\<forall>i<length recs.
            date (recs ! i) = filter (\<lambda>r. r \<noteq> []) data ! i ! 0 \<and>
            py_int (filter (\<lambda>r. r \<noteq> []) data ! i ! 1) = Inr (min_temp_f (recs ! i)) \<and>
            py_int (filter (\<lambda>r. r \<noteq> []) data ! i ! 2) = Inr (max_temp_f (recs ! i)))"
    using recs by blast
qed simp_all

theorem load_well_formed_in_order_witness:
  "well_formed_row [''2021-07-06'', ''30'', ''80''] \<and>
   well_formed_row [''2021-07-07'', ''20'', ''90''] \<and>
   load_data_from_csv
     [[''date'', ''min'', ''max''], [''2021-07-06'', ''30'', ''80''], [],
      [''2021-07-07'', ''20'', ''90'']] =
     Inr [\<lparr>date = ''2021-07-06'', min_temp_f = 30, max_temp_f = 80\<rparr>,
          \<lparr>date = ''2021-07-07'', min_temp_f = 20, max_temp_f = 90\<rparr>]"
  using load_well_formed_in_order [of
      "[[''2021-07-06'', ''30'', ''80''], [], [''2021-07-07'', ''20'', ''90'']]"
      "[''date'', ''min'', ''max'']" "[]" "[]" binary64_ops]
  by (simp add: load_data_from_csv_def process_row_def py_getitem_def py_int_30 py_int_80
      py_int_20 py_int_90 well_formed_row_def is_int_def)

text \<open>
  Claim C10. A source with a header row and no data row loads as the empty list; a source
  with no row at all raises StopIteration, from \<^verbatim>\<open>next(reader)\<close>.
\<close>

theorem load_header_only_and_empty_source:
  "load_data_from_csv [header] = Inr [] \<and> load_data_from_csv [] = Inl StopIteration"
  by (simp add: load_data_from_csv_def)

end
